theory Spec2Isabelle
  imports
    Main
    "HOL-Library.Multiset"
    "HOL-Library.Char_ord"
    "HOL-Library.List_Lexorder"
begin

section \<open>The attendance service of backend/server.js\<close>

text \<open>
  The service is a set of Express handlers over one MySQL table, \<^verbatim>\<open>Attendance\<close>. Each
  handler is modelled as a function from the store (and the request) to the response and
  the store afterwards. The SQL statements the handlers send are modelled by their
  meaning on the table; \<^verbatim>\<open>pool.execute\<close> either runs the statement or throws, and a
  handler answers a throw from its \<^verbatim>\<open>catch\<close> block.

  What the database server does with a text is not in the repository, so it is a
  parameter of the model: the collation of the \<^verbatim>\<open>VARCHAR\<close> columns, the date a \<^verbatim>\<open>DATE\<close>
  column stores for a value, the value a text has when it is compared with a \<^verbatim>\<open>DATE\<close>
  column, and the texts the server refuses to compare with one. The theorems hold for
  every server; the example server further down folds the case of ASCII letters and
  reads dates written year-month-day.

  The limits of the model: the fields of a JSON body and of a query string are texts or
  missing, and the id in the route of a DELETE is the number it writes.
\<close>

subsection \<open>The table\<close>

text \<open>
  One row of \<^verbatim>\<open>Attendance\<close> (lines 46 to 53), as the driver returns it: a \<^verbatim>\<open>DATE\<close> is
  the text \<^verbatim>\<open>YYYY-MM-DD\<close> of the stored date, which orders as the calendar does, and
  \<^verbatim>\<open>createdAt\<close> is the server clock at the insert, in seconds.
\<close>

record row =
  row_id :: nat
  row_employeeName :: string
  row_employeeID :: string
  row_date :: string
  row_status :: string
  row_createdAt :: nat

text \<open>
  The database server behind the pool: the rows in insertion order, the last value the
  \<^verbatim>\<open>AUTO_INCREMENT\<close> counter gave out, whether the server answers, and how many statements
  the pool has been handed so far (so that a handler that never calls the pool leaves the
  store as it was, this count included). Then the server's treatment of texts:
  \<^item> \<open>text_key\<close> gives a text its key in the collation of the \<^verbatim>\<open>VARCHAR\<close> columns (the
    table is created with the server's default): \<^verbatim>\<open>=\<close> holds of two texts with the same
    key;
  \<^item> \<open>char_weight\<close> gives a character its weight in that collation: \<^verbatim>\<open>LIKE\<close> compares
    character by character, and a literal character of the pattern matches a character
    of the same weight;
  \<^item> \<open>date_stored\<close> gives the date a \<^verbatim>\<open>DATE\<close> column stores for an inserted value, \<open>None\<close>
    when the server rejects the value;
  \<^item> \<open>date_compared\<close> gives the temporal value a text has in a comparison with a \<^verbatim>\<open>DATE\<close>
    column: a stored date equals a constant when the two have the same value;
  \<^item> \<open>date_refused\<close> holds of the texts the server does not read as a temporal value and
    answers with an error when a \<^verbatim>\<open>DATE\<close> column is compared with one.
\<close>

record db =
  table :: "row list"
  auto_increment :: nat
  reachable :: bool
  executed :: nat
  text_key :: "string \<Rightarrow> string"
  char_weight :: "char \<Rightarrow> char"
  date_stored :: "string \<Rightarrow> string option"
  date_compared :: "string \<Rightarrow> string"
  date_refused :: "string \<Rightarrow> bool"

text \<open>
  What a handler's \<^verbatim>\<open>catch\<close> block can catch: the server does not answer, the server
  rejects the statement, or the handler's own code throws.
\<close>

datatype error = StorageError | StatementRejected | TypeError

text \<open>
  \<^verbatim>\<open>await pool.execute(sql, params)\<close>: the statement is handed to the pool; an unreachable
  server makes the call throw, otherwise the statement runs on the server, which executes
  it or rejects it.
\<close>

definition pool_execute :: "db \<Rightarrow> (db \<Rightarrow> (error + 'a) \<times> db) \<Rightarrow> (error + 'a) \<times> db" where
  "pool_execute d stmt =
     (let d1 = d\<lparr>executed := Suc (executed d)\<rparr>
      in if reachable d1 then stmt d1 else (Inl StorageError, d1))"

text \<open>The comparison \<^verbatim>\<open>=\<close> on a \<^verbatim>\<open>VARCHAR\<close> column and on the \<^verbatim>\<open>DATE\<close> column.\<close>

definition text_equal :: "db \<Rightarrow> string \<Rightarrow> string \<Rightarrow> bool" where
  "text_equal d s t = (text_key d s = text_key d t)"

definition date_equal :: "db \<Rightarrow> string \<Rightarrow> string \<Rightarrow> bool" where
  "date_equal d stored constant = (date_compared d stored = date_compared d constant)"

text \<open>
  A constant the server refuses to compare with the \<^verbatim>\<open>DATE\<close> column. The server reads
  the dates it has stored, so the text of a stored date is never refused.
\<close>

definition date_unreadable :: "db \<Rightarrow> string \<Rightarrow> bool" where
  "date_unreadable d constant =
     (date_refused d constant \<and> constant \<notin> set (map row_date (table d)))"

subsection \<open>Ordering: \<^verbatim>\<open>ORDER BY date DESC, createdAt DESC\<close>\<close>

definition precedes :: "row \<Rightarrow> row \<Rightarrow> bool" where
  "precedes a b =
     (row_date b < row_date a \<or> (row_date a = row_date b \<and> row_createdAt b \<le> row_createdAt a))"

fun insert_ordered :: "row \<Rightarrow> row list \<Rightarrow> row list" where
  "insert_ordered r [] = [r]"
| "insert_ordered r (x # xs) =
     (if precedes r x then r # x # xs else x # insert_ordered r xs)"

fun order_by :: "row list \<Rightarrow> row list" where
  "order_by [] = []"
| "order_by (r # rs) = insert_ordered r (order_by rs)"

subsection \<open>The statements\<close>

text \<open>\<^verbatim>\<open>SELECT * FROM Attendance ORDER BY date DESC, createdAt DESC\<close> (line 88).\<close>

definition select_all :: "db \<Rightarrow> (error + row list) \<times> db" where
  "select_all d = (Inr (order_by (table d)), d)"

text \<open>\<^verbatim>\<open>SELECT * FROM Attendance WHERE employeeID = ? AND date = ?\<close> (line 112).\<close>

definition select_existing :: "string \<Rightarrow> string \<Rightarrow> db \<Rightarrow> (error + row list) \<times> db" where
  "select_existing eid dt d =
     (if date_unreadable d dt then (Inl StatementRejected, d)
      else (Inr (filter (\<lambda>r. text_equal d (row_employeeID r) eid \<and>
                              date_equal d (row_date r) dt) (table d)), d))"

text \<open>
  \<^verbatim>\<open>INSERT INTO Attendance (employeeName, employeeID, date, status) VALUES (?, ?, ?, ?)\<close>
  (line 120) on the columns of lines 46 to 53. The server rejects a name longer than the
  255 characters of \<^verbatim>\<open>VARCHAR(255)\<close>, an employeeID longer than the 100 of \<^verbatim>\<open>VARCHAR(100)\<close>
  (strict mode, the server's default), a value the \<^verbatim>\<open>DATE\<close> column does not take, and an
  insert when the \<^verbatim>\<open>INT\<close> counter has given out its last value, 2147483647. Otherwise the
  id is the next counter value, the date is the one the column stores for the value,
  \<^verbatim>\<open>createdAt\<close> defaults to the clock, and the result is \<^verbatim>\<open>insertId\<close>.
\<close>

definition insert_attendance ::
  "nat \<Rightarrow> string \<Rightarrow> string \<Rightarrow> string \<Rightarrow> string \<Rightarrow> db \<Rightarrow> (error + nat) \<times> db" where
  "insert_attendance now name eid dt st d =
     (case date_stored d dt of
        None \<Rightarrow> (Inl StatementRejected, d)
      | Some day \<Rightarrow>
          if 255 < length name \<or> 100 < length eid \<or> 2147483647 \<le> auto_increment d
          then (Inl StatementRejected, d)
          else
            (let i = Suc (auto_increment d)
             in (Inr i, d\<lparr>table := table d @
                          [\<lparr>row_id = i, row_employeeName = name, row_employeeID = eid,
                            row_date = day, row_status = st, row_createdAt = now\<rparr>],
                        auto_increment := i\<rparr>)))"

text \<open>\<^verbatim>\<open>DELETE FROM Attendance WHERE id = ?\<close> (line 137); the result is \<^verbatim>\<open>affectedRows\<close>.\<close>

definition delete_by_id :: "nat \<Rightarrow> db \<Rightarrow> (error + nat) \<times> db" where
  "delete_by_id i d =
     (Inr (length (filter (\<lambda>r. row_id r = i) (table d))),
      d\<lparr>table := filter (\<lambda>r. row_id r \<noteq> i) (table d)\<rparr>)"

text \<open>
  \<^verbatim>\<open>LIKE\<close>: in the pattern \<^verbatim>\<open>%\<close> stands for any run of characters, \<^verbatim>\<open>_\<close> for any one
  character, and a backslash takes the character after it literally (at the end of the
  pattern it stands for itself). A literal character of the pattern matches a character
  of the same weight \<open>w\<close> in the collation of the column.
\<close>

fun like_match :: "(char \<Rightarrow> char) \<Rightarrow> string \<Rightarrow> string \<Rightarrow> bool" where
  "like_match w [] s = (s = [])"
| "like_match w (p # ps) [] = (p = CHR ''%'' \<and> like_match w ps [])"
| "like_match w (p # ps) (c # cs) =
     (if p = CHR ''%'' then like_match w ps (c # cs) \<or> like_match w (p # ps) cs
      else if p = CHR ''_'' then like_match w ps cs
      else if p = CHR 0x5C then
        (case ps of [] \<Rightarrow> w c = w (CHR 0x5C) \<and> cs = []
         | q # qs \<Rightarrow> w c = w q \<and> like_match w qs cs)
      else w p = w c \<and> like_match w ps cs)"

text \<open>
  The conditions the filter handler appends to \<^verbatim>\<open>WHERE 1=1\<close> (lines 157 to 170), each
  with its parameter.
\<close>

datatype clause = DateEquals string | EmployeeNameLike string | EmployeeIDLike string

fun clause_holds :: "db \<Rightarrow> row \<Rightarrow> clause \<Rightarrow> bool" where
  "clause_holds d r (DateEquals dt) = date_equal d (row_date r) dt"
| "clause_holds d r (EmployeeNameLike p) = like_match (char_weight d) p (row_employeeName r)"
| "clause_holds d r (EmployeeIDLike p) = like_match (char_weight d) p (row_employeeID r)"

fun clause_refused :: "db \<Rightarrow> clause \<Rightarrow> bool" where
  "clause_refused d (DateEquals dt) = date_unreadable d dt"
| "clause_refused d (EmployeeNameLike p) = False"
| "clause_refused d (EmployeeIDLike p) = False"

text \<open>
  \<^verbatim>\<open>SELECT * FROM Attendance WHERE 1=1 AND ... ORDER BY date DESC, createdAt DESC\<close>
  (lines 154 to 174).
\<close>

definition select_where :: "clause list \<Rightarrow> db \<Rightarrow> (error + row list) \<times> db" where
  "select_where cs d =
     (if list_ex (clause_refused d) cs then (Inl StatementRejected, d)
      else (Inr (order_by (filter (\<lambda>r. list_all (clause_holds d r) cs) (table d))), d))"

subsection \<open>Requests and responses\<close>

text \<open>
  A field of the JSON body or of the query string: \<open>None\<close> when it is missing. The handlers
  test fields with \<^verbatim>\<open>!x\<close> and \<^verbatim>\<open>if (x)\<close>: a missing field and the empty text are falsy.
\<close>

fun truthy :: "string option \<Rightarrow> bool" where
  "truthy None = False"
| "truthy (Some s) = (s \<noteq> [])"

fun text_of :: "string option \<Rightarrow> string" where
  "text_of None = []"
| "text_of (Some s) = s"

record create_body =
  body_employeeName :: "string option"
  body_employeeID :: "string option"
  body_date :: "string option"
  body_status :: "string option"

record filter_query =
  query_date :: "string option"
  query_employeeName :: "string option"
  query_employeeID :: "string option"

datatype payload =
    RowsBody "row list"
  | ErrorBody string
  | CreatedBody string nat
  | MessageBody string
  | HealthBody string string string string string

record response =
  status_code :: nat
  payload :: payload

text \<open>\<^verbatim>\<open>res.json(x)\<close> answers 200; \<^verbatim>\<open>res.status(n).json(x)\<close> answers \<open>n\<close>.\<close>

definition json :: "payload \<Rightarrow> response" where
  "json p = \<lparr>status_code = 200, payload = p\<rparr>"

definition status_json :: "nat \<Rightarrow> payload \<Rightarrow> response" where
  "status_json n p = \<lparr>status_code = n, payload = p\<rparr>"

text \<open>The rows a response carries (none when it is not a listing).\<close>

definition rows_of :: "response \<Rightarrow> row list" where
  "rows_of r = (case payload r of RowsBody rs \<Rightarrow> rs | _ \<Rightarrow> [])"

subsection \<open>The handlers\<close>

text \<open>\<^verbatim>\<open>GET /api/attendance\<close> (lines 86 to 94).\<close>

definition get_attendance :: "db \<Rightarrow> response \<times> db" where
  "get_attendance d =
     (case pool_execute d select_all of
        (Inr rows, d') \<Rightarrow> (json (RowsBody rows), d')
      | (Inl _, d') \<Rightarrow>
          (status_json 500 (ErrorBody ''Failed to fetch attendance records''), d'))"

text \<open>
  \<^verbatim>\<open>POST /api/attendance\<close> (lines 97 to 131); \<open>now\<close> is the database clock at the insert.
  The body is \<open>None\<close> when \<^verbatim>\<open>req.body\<close> is undefined (no body was parsed): the destructuring
  of line 99 then throws inside the \<^verbatim>\<open>try\<close>, and the \<^verbatim>\<open>catch\<close> block answers.
\<close>

fun destructure :: "create_body option \<Rightarrow> error + create_body" where
  "destructure None = Inl TypeError"
| "destructure (Some b) = Inr b"

definition post_attendance :: "nat \<Rightarrow> db \<Rightarrow> create_body option \<Rightarrow> response \<times> db" where
  "post_attendance now d body =
     (case destructure body of
        Inl _ \<Rightarrow> (status_json 500 (ErrorBody ''Failed to record attendance''), d)
      | Inr b \<Rightarrow>
          (if \<not> truthy (body_employeeName b) \<or> \<not> truthy (body_employeeID b) \<or>
              \<not> truthy (body_date b) \<or> \<not> truthy (body_status b)
           then (status_json 400 (ErrorBody ''All fields are required''), d)
           else if text_of (body_status b) \<notin> set [''Present'', ''Absent'']
           then (status_json 400 (ErrorBody ''Status must be Present or Absent''), d)
           else
             (case pool_execute d
                     (select_existing (text_of (body_employeeID b)) (text_of (body_date b))) of
                (Inl _, d1) \<Rightarrow>
                  (status_json 500 (ErrorBody ''Failed to record attendance''), d1)
              | (Inr existing, d1) \<Rightarrow>
                  if length existing > 0
                  then (status_json 400
                          (ErrorBody
                             ''Attendance already recorded for this employee on the selected date''),
                        d1)
                  else
                    (case pool_execute d1
                            (insert_attendance now (text_of (body_employeeName b))
                               (text_of (body_employeeID b)) (text_of (body_date b))
                               (text_of (body_status b))) of
                       (Inl _, d2) \<Rightarrow>
                         (status_json 500 (ErrorBody ''Failed to record attendance''), d2)
                     | (Inr insertId, d2) \<Rightarrow>
                         (status_json 201
                            (CreatedBody ''Attendance recorded successfully'' insertId), d2)))))"

text \<open>
  \<^verbatim>\<open>DELETE /api/attendance/:id\<close> (lines 134 to 148); the route parameter is read as the
  number it writes.
\<close>

definition delete_attendance :: "db \<Rightarrow> nat \<Rightarrow> response \<times> db" where
  "delete_attendance d i =
     (case pool_execute d (delete_by_id i) of
        (Inl _, d') \<Rightarrow> (status_json 500 (ErrorBody ''Failed to delete record''), d')
      | (Inr affectedRows, d') \<Rightarrow>
          if affectedRows = 0
          then (status_json 404 (ErrorBody ''Record not found''), d')
          else (json (MessageBody ''Record deleted successfully''), d'))"

text \<open>
  \<^verbatim>\<open>GET /api/attendance/filter\<close> (lines 151 to 180). The handler appends one condition
  for each truthy parameter, in the order date, employeeName, employeeID.
\<close>

definition filter_clauses :: "filter_query \<Rightarrow> clause list" where
  "filter_clauses q =
     (if truthy (query_date q) then [DateEquals (text_of (query_date q))] else []) @
     (if truthy (query_employeeName q)
      then [EmployeeNameLike (''%'' @ text_of (query_employeeName q) @ ''%'')] else []) @
     (if truthy (query_employeeID q)
      then [EmployeeIDLike (''%'' @ text_of (query_employeeID q) @ ''%'')] else [])"

definition get_attendance_filter :: "db \<Rightarrow> filter_query \<Rightarrow> response \<times> db" where
  "get_attendance_filter d q =
     (case pool_execute d (select_where (filter_clauses q)) of
        (Inr rows, d') \<Rightarrow> (json (RowsBody rows), d')
      | (Inl _, d') \<Rightarrow>
          (status_json 500 (ErrorBody ''Failed to filter attendance records''), d'))"

text \<open>
  \<^verbatim>\<open>GET /api/health\<close> (lines 183 to 191); \<open>iso_now\<close> is \<^verbatim>\<open>new Date().toISOString()\<close>.
\<close>

definition get_health :: "string \<Rightarrow> db \<Rightarrow> response \<times> db" where
  "get_health iso_now d =
     (json (HealthBody ''OK'' ''Server is running'' iso_now ''Connected'' ''1.0.0''), d)"


subsection \<open>Requests served one after another\<close>





subsection \<open>Startup\<close>

text \<open>
  What the database server does with each of the four calls \<^verbatim>\<open>initializeDatabase\<close>
  awaits (lines 30, 39, 42 and 56): \<open>True\<close> when the call resolves, \<open>False\<close> when it
  rejects.
\<close>

record mysql_server =
  createConnection_ok :: bool
  create_database_ok :: bool
  end_ok :: bool
  create_table_ok :: bool

datatype startup_event =
    ServerConnected
  | DatabaseCreated
  | ConnectionEnded
  | TableCreated
  | Listening
  | Exited nat

text \<open>
  \<^verbatim>\<open>initializeDatabase\<close> (lines 25 to 64): the steps run in order, the first rejection is
  rethrown from the \<^verbatim>\<open>catch\<close> block. The result carries the steps completed.
\<close>

definition initializeDatabase :: "mysql_server \<Rightarrow> (error + unit) \<times> startup_event list" where
  "initializeDatabase s =
     (if \<not> createConnection_ok s then (Inl StorageError, [])
      else if \<not> create_database_ok s then (Inl StorageError, [ServerConnected])
      else if \<not> end_ok s then (Inl StorageError, [ServerConnected, DatabaseCreated])
      else if \<not> create_table_ok s
      then (Inl StorageError, [ServerConnected, DatabaseCreated, ConnectionEnded])
      else (Inr (), [ServerConnected, DatabaseCreated, ConnectionEnded, TableCreated]))"

text \<open>
  \<^verbatim>\<open>startServer\<close> (lines 213 to 252): \<^verbatim>\<open>app.listen\<close> is called once
  \<^verbatim>\<open>initializeDatabase\<close> has resolved; a rejection ends in \<^verbatim>\<open>process.exit(1)\<close>.
\<close>

definition startServer :: "mysql_server \<Rightarrow> startup_event list" where
  "startServer s =
     (case initializeDatabase s of
        (Inr _, done) \<Rightarrow> done @ [Listening]
      | (Inl _, done) \<Rightarrow> done @ [Exited 1])"

subsection \<open>The properties, in the words of the specification\<close>

text \<open>A required field that is missing or empty.\<close>

definition missing_or_empty :: "string option \<Rightarrow> bool" where
  "missing_or_empty v = (v = None \<or> v = Some [])"


text \<open>Date descending, and creation time descending within one date.\<close>

definition date_desc_created_desc :: "row list \<Rightarrow> bool" where
  "date_desc_created_desc rs =
     sorted_wrt (\<lambda>a b. row_date b < row_date a \<or>
                        (row_date a = row_date b \<and> row_createdAt b \<le> row_createdAt a)) rs"

text \<open>The text \<open>x\<close> occurs in \<open>s\<close>.\<close>

fun starts_with :: "string \<Rightarrow> string \<Rightarrow> bool" where
  "starts_with s [] = True"
| "starts_with [] (x # xs) = False"
| "starts_with (c # cs) (x # xs) = (c = x \<and> starts_with cs xs)"

fun contains :: "string \<Rightarrow> string \<Rightarrow> bool" where
  "contains [] x = (x = [])"
| "contains (c # cs) x = (starts_with (c # cs) x \<or> contains cs x)"

text \<open>All four steps of the schema bootstrap succeed.\<close>

definition bootstrap_ok :: "mysql_server \<Rightarrow> bool" where
  "bootstrap_ok s =
     (createConnection_ok s \<and> create_database_ok s \<and> end_ok s \<and> create_table_ok s)"

text \<open>The four fields are present and non-empty and the status is Present or Absent.\<close>

definition well_formed :: "create_body \<Rightarrow> bool" where
  "well_formed b =
     (\<not> missing_or_empty (body_employeeName b) \<and> \<not> missing_or_empty (body_employeeID b) \<and>
      \<not> missing_or_empty (body_date b) \<and> \<not> missing_or_empty (body_status b) \<and>
      body_status b \<in> {Some ''Present'', Some ''Absent''})"

text \<open>
  A stored record has the employeeID and the date of the request, as the server compares
  them in the existence query of lines 111 to 114.
\<close>

definition same_day :: "db \<Rightarrow> create_body \<Rightarrow> row \<Rightarrow> bool" where
  "same_day d b r =
     (text_equal d (row_employeeID r) (text_of (body_employeeID b)) \<and>
      date_equal d (row_date r) (text_of (body_date b)))"

text \<open>The server executes the existence query of the request: it reads the date.\<close>

definition query_accepted :: "db \<Rightarrow> create_body \<Rightarrow> bool" where
  "query_accepted d b = (\<not> date_unreadable d (text_of (body_date b)))"

text \<open>
  The server executes the insert of the request: it takes the date, the name and the
  employeeID fit their columns, and the counter has an id left.
\<close>

definition insert_accepted :: "db \<Rightarrow> create_body \<Rightarrow> bool" where
  "insert_accepted d b =
     (date_stored d (text_of (body_date b)) \<noteq> None \<and>
      length (text_of (body_employeeName b)) \<le> 255 \<and>
      length (text_of (body_employeeID b)) \<le> 100 \<and>
      auto_increment d < 2147483647)"

text \<open>
  The record a Create request describes, with the id and the time the insert gives it and
  the date the column stores.
\<close>

definition new_row :: "nat \<Rightarrow> db \<Rightarrow> create_body \<Rightarrow> row" where
  "new_row now d b =
     \<lparr>row_id = Suc (auto_increment d), row_employeeName = text_of (body_employeeName b),
      row_employeeID = text_of (body_employeeID b),
      row_date = (case date_stored d (text_of (body_date b)) of None \<Rightarrow> [] | Some day \<Rightarrow> day),
      row_status = text_of (body_status b), row_createdAt = now\<rparr>"



text \<open>A filter parameter is supplied when it is present and not the empty text.\<close>

definition supplied :: "string option \<Rightarrow> bool" where
  "supplied v = (\<not> missing_or_empty v)"

text \<open>The server executes the filter query: it reads the date, when one is supplied.\<close>

definition filter_accepted :: "db \<Rightarrow> filter_query \<Rightarrow> bool" where
  "filter_accepted d q =
     (supplied (query_date q) \<longrightarrow> \<not> date_unreadable d (text_of (query_date q)))"

text \<open>
  The conjunction of the supplied conditions: the date equal as the server compares
  dates, employeeName and employeeID by containment as the collation weighs characters.
\<close>

definition satisfies :: "db \<Rightarrow> filter_query \<Rightarrow> row \<Rightarrow> bool" where
  "satisfies d q r =
     ((supplied (query_date q) \<longrightarrow> date_equal d (row_date r) (text_of (query_date q))) \<and>
      (supplied (query_employeeName q) \<longrightarrow>
         contains (map (char_weight d) (row_employeeName r))
           (map (char_weight d) (text_of (query_employeeName q)))) \<and>
      (supplied (query_employeeID q) \<longrightarrow>
         contains (map (char_weight d) (row_employeeID r))
           (map (char_weight d) (text_of (query_employeeID q)))))"

text \<open>The text has none of the characters \<^verbatim>\<open>LIKE\<close> reads as a wildcard or an escape.\<close>

definition wildcard_free :: "string \<Rightarrow> bool" where
  "wildcard_free x = list_all (\<lambda>c. c \<noteq> CHR ''%'' \<and> c \<noteq> CHR ''_'' \<and> c \<noteq> CHR 0x5C) x"

subsection \<open>An example server\<close>

text \<open>
  A server as MySQL is out of the box, on the texts the examples use. Its collation does
  not tell the case of an ASCII letter. It reads a date written year-month-day, with or
  without leading zeros, and a time written hour:minute:second after a space: the
  \<^verbatim>\<open>DATE\<close> column stores the date and drops the time, and in a comparison a text is the
  date and time it writes, midnight when it writes no time. Any other text it neither
  stores nor compares.
\<close>

definition fold_case :: "char \<Rightarrow> char" where
  "fold_case c =
     (case map_of (zip ''ABCDEFGHIJKLMNOPQRSTUVWXYZ'' ''abcdefghijklmnopqrstuvwxyz'') c of
        None \<Rightarrow> c | Some l \<Rightarrow> l)"

definition digit_value :: "char \<Rightarrow> nat option" where
  "digit_value c = map_of (zip ''0123456789'' [0, 1, 2, 3, 4, 5, 6, 7, 8, 9]) c"

fun number_from :: "nat \<Rightarrow> string \<Rightarrow> nat option" where
  "number_from acc [] = Some acc"
| "number_from acc (c # cs) =
     (case digit_value c of None \<Rightarrow> None | Some n \<Rightarrow> number_from (10 * acc + n) cs)"

definition number_value :: "string \<Rightarrow> nat option" where
  "number_value s = (if s = [] then None else number_from 0 s)"

fun split_on :: "char \<Rightarrow> string \<Rightarrow> string list" where
  "split_on sep [] = [[]]"
| "split_on sep (c # cs) =
     (if c = sep then [] # split_on sep cs
      else (case split_on sep cs of [] \<Rightarrow> [[c]] | p # ps \<Rightarrow> (c # p) # ps))"

definition two_digits :: "nat \<Rightarrow> string" where
  "two_digits n = [''0123456789'' ! (n div 10 mod 10), ''0123456789'' ! (n mod 10)]"

definition read_three :: "char \<Rightarrow> string \<Rightarrow> (nat \<times> nat \<times> nat) option" where
  "read_three sep s =
     (case map number_value (split_on sep s) of
        [Some a, Some b, Some c] \<Rightarrow> Some (a, b, c)
      | _ \<Rightarrow> None)"

definition calendar_date :: "string \<Rightarrow> string option" where
  "calendar_date s =
     (case read_three CHR ''-'' s of
        None \<Rightarrow> None
      | Some (y, m, day) \<Rightarrow>
          if y \<le> 9999 \<and> 1 \<le> m \<and> m \<le> 12 \<and> 1 \<le> day \<and> day \<le> 31
          then Some (two_digits (y div 100) @ two_digits y @ ''-'' @ two_digits m @ ''-'' @
                     two_digits day)
          else None)"

definition clock_time :: "string \<Rightarrow> string option" where
  "clock_time s =
     (case read_three CHR '':'' s of
        None \<Rightarrow> None
      | Some (h, m, sec) \<Rightarrow>
          if h \<le> 23 \<and> m \<le> 59 \<and> sec \<le> 59
          then Some (two_digits h @ '':'' @ two_digits m @ '':'' @ two_digits sec)
          else None)"

definition date_of_text :: "string \<Rightarrow> string option" where
  "date_of_text s =
     (case split_on CHR '' '' s of
        [day] \<Rightarrow> calendar_date day
      | [day, clock] \<Rightarrow>
          (case clock_time clock of None \<Rightarrow> None | Some _ \<Rightarrow> calendar_date day)
      | _ \<Rightarrow> None)"

definition datetime_of_text :: "string \<Rightarrow> string" where
  "datetime_of_text s =
     (case split_on CHR '' '' s of
        [day] \<Rightarrow> (case calendar_date day of None \<Rightarrow> s | Some c \<Rightarrow> c @ '' 00:00:00'')
      | [day, clock] \<Rightarrow>
          (case (calendar_date day, clock_time clock) of
             (Some c, Some t) \<Rightarrow> c @ '' '' @ t
           | _ \<Rightarrow> s)
      | _ \<Rightarrow> s)"

definition example_server :: db where
  "example_server =
     \<lparr>table = [], auto_increment = 0, reachable = True, executed = 0,
      text_key = map fold_case, char_weight = fold_case, date_stored = date_of_text,
      date_compared = datetime_of_text, date_refused = (\<lambda>s. date_of_text s = None)\<rparr>"

subsection \<open>Example stores and requests\<close>

definition jane :: row where
  "jane = \<lparr>row_id = 1, row_employeeName = ''Jane Doe'', row_employeeID = ''E100'',
            row_date = ''2024-01-05'', row_status = ''Present'', row_createdAt = 10\<rparr>"

definition sam :: row where
  "sam = \<lparr>row_id = 2, row_employeeName = ''Sam Roe'', row_employeeID = ''E200'',
           row_date = ''2024-01-06'', row_status = ''Absent'', row_createdAt = 20\<rparr>"

definition ann :: row where
  "ann = \<lparr>row_id = 3, row_employeeName = ''Ann Lee'', row_employeeID = ''E300'',
           row_date = ''2024-01-05'', row_status = ''Present'', row_createdAt = 30\<rparr>"

definition store_up :: db where
  "store_up = example_server\<lparr>table := [jane], auto_increment := 1\<rparr>"

definition store_down :: db where
  "store_down = example_server\<lparr>table := [jane], auto_increment := 1, reachable := False\<rparr>"

definition store_three :: db where
  "store_three = example_server\<lparr>table := [jane, sam, ann], auto_increment := 3\<rparr>"

definition jane_next_day :: create_body where
  "jane_next_day =
     \<lparr>body_employeeName = Some ''Jane Doe'', body_employeeID = Some ''E100'',
      body_date = Some ''2024-01-06'', body_status = Some ''Present''\<rparr>"



definition jane_lower_case :: create_body where
  "jane_lower_case =
     \<lparr>body_employeeName = Some ''Jane Doe'', body_employeeID = Some ''e100'',
      body_date = Some ''2024-1-5'', body_status = Some ''Present''\<rparr>"

definition jane_some_day :: create_body where
  "jane_some_day =
     \<lparr>body_employeeName = Some ''Jane Doe'', body_employeeID = Some ''E100'',
      body_date = Some ''tomorrow'', body_status = Some ''Present''\<rparr>"

definition long_name :: create_body where
  "long_name =
     \<lparr>body_employeeName = Some (replicate 256 CHR ''x''), body_employeeID = Some ''E100'',
      body_date = Some ''2024-01-06'', body_status = Some ''Present''\<rparr>"


definition no_filter :: filter_query where
  "no_filter = \<lparr>query_date = None, query_employeeName = Some [], query_employeeID = None\<rparr>"

definition underscore_filter :: filter_query where
  "underscore_filter =
     \<lparr>query_date = None, query_employeeName = None, query_employeeID = Some ''_''\<rparr>"

definition january_fifth_e :: filter_query where
  "january_fifth_e =
     \<lparr>query_date = Some ''2024-1-5'', query_employeeName = Some ''E'',
      query_employeeID = Some ''e''\<rparr>"

definition name_jane :: filter_query where
  "name_jane =
     \<lparr>query_date = None, query_employeeName = Some ''jane'', query_employeeID = None\<rparr>"

definition tomorrow_filter :: filter_query where
  "tomorrow_filter =
     \<lparr>query_date = Some ''tomorrow'', query_employeeName = None, query_employeeID = None\<rparr>"

definition failing_server :: mysql_server where
  "failing_server =
     \<lparr>createConnection_ok = True, create_database_ok = True, end_ok = True,
      create_table_ok = False\<rparr>"

definition working_server :: mysql_server where
  "working_server =
     \<lparr>createConnection_ok = True, create_database_ok = True, end_ok = True,
      create_table_ok = True\<rparr>"

section \<open>Lemmas\<close>

lemmas example_reading =
  fold_case_def digit_value_def number_value_def two_digits_def read_three_def
  calendar_date_def clock_time_def date_of_text_def datetime_of_text_def

lemma pool_execute_up:
  "reachable d \<Longrightarrow> pool_execute d stmt = stmt (d\<lparr>executed := Suc (executed d)\<rparr>)"
  by (simp add: pool_execute_def Let_def)

lemma pool_execute_down:
  "\<not> reachable d \<Longrightarrow>
   pool_execute d stmt = (Inl StorageError, d\<lparr>executed := Suc (executed d)\<rparr>)"
  by (simp add: pool_execute_def Let_def)



lemma text_equal_executed [simp]: "text_equal (d\<lparr>executed := n\<rparr>) = text_equal d"
  by (simp add: text_equal_def fun_eq_iff)

lemma date_equal_executed [simp]: "date_equal (d\<lparr>executed := n\<rparr>) = date_equal d"
  by (simp add: date_equal_def fun_eq_iff)

lemma date_unreadable_executed [simp]:
  "date_unreadable (d\<lparr>executed := n\<rparr>) = date_unreadable d"
  by (simp add: date_unreadable_def fun_eq_iff)


lemma precedes_total: "\<not> precedes a b \<Longrightarrow> precedes b a"
  by (auto simp: precedes_def)

lemma precedes_trans: "precedes a b \<Longrightarrow> precedes b c \<Longrightarrow> precedes a c"
  by (auto simp: precedes_def)

lemma mset_insert_ordered: "mset (insert_ordered r rs) = add_mset r (mset rs)"
  by (induction rs) auto

lemma mset_order_by: "mset (order_by rs) = mset rs"
  by (induction rs) (auto simp: mset_insert_ordered)

lemma set_insert_ordered: "set (insert_ordered r rs) = insert r (set rs)"
  by (induction rs) auto

lemma set_order_by: "set (order_by rs) = set rs"
  by (induction rs) (auto simp: set_insert_ordered)

lemma sorted_insert_ordered:
  "sorted_wrt precedes rs \<Longrightarrow> sorted_wrt precedes (insert_ordered r rs)"
proof (induction rs)
  case Nil
  then show ?case by simp
next
  case (Cons x xs)
  show ?case
  proof (cases "precedes r x")
    case True
    with Cons.prems show ?thesis
      by (auto intro: precedes_trans)
  next
    case False
    then have "precedes x r" by (rule precedes_total)
    with False Cons show ?thesis
      by (auto simp: set_insert_ordered)
  qed
qed

lemma sorted_order_by: "sorted_wrt precedes (order_by rs)"
  by (induction rs) (auto intro: sorted_insert_ordered)

lemma date_desc_created_desc_order_by: "date_desc_created_desc (order_by rs)"
  using sorted_order_by [of rs]
  by (simp add: date_desc_created_desc_def precedes_def [abs_def])

lemma truthy_iff: "truthy v \<longleftrightarrow> \<not> missing_or_empty v"
  by (cases v) (simp_all add: missing_or_empty_def)

lemma well_formed_checks:
  "well_formed b \<Longrightarrow>
   truthy (body_employeeName b) \<and> truthy (body_employeeID b) \<and> truthy (body_date b) \<and>
   truthy (body_status b) \<and> text_of (body_status b) \<in> set [''Present'', ''Absent'']"
  by (cases "body_status b") (auto simp: well_formed_def truthy_iff)





lemma post_attendance_inserted:
  "well_formed b \<Longrightarrow> reachable d \<Longrightarrow> query_accepted d b \<Longrightarrow>
   filter (same_day d b) (table d) = [] \<Longrightarrow> insert_accepted d b \<Longrightarrow>
   post_attendance now d (Some b) =
     (status_json 201 (CreatedBody ''Attendance recorded successfully'' (Suc (auto_increment d))),
      d\<lparr>executed := Suc (Suc (executed d)), table := table d @ [new_row now d b],
        auto_increment := Suc (auto_increment d)\<rparr>)"
  using well_formed_checks [of b]
  by (auto simp: post_attendance_def pool_execute_up select_existing_def same_day_def [abs_def]
      insert_attendance_def insert_accepted_def query_accepted_def Let_def new_row_def
      split: option.splits)




lemma get_attendance_up:
  "reachable d \<Longrightarrow>
   get_attendance d = (json (RowsBody (order_by (table d))), d\<lparr>executed := Suc (executed d)\<rparr>)"
  by (simp add: get_attendance_def pool_execute_up select_all_def)

lemma get_attendance_down:
  "\<not> reachable d \<Longrightarrow>
   get_attendance d =
     (status_json 500 (ErrorBody ''Failed to fetch attendance records''),
      d\<lparr>executed := Suc (executed d)\<rparr>)"
  by (simp add: get_attendance_def pool_execute_down)

lemma clause_holds_executed [simp]: "clause_holds (d\<lparr>executed := n\<rparr>) r = clause_holds d r"
proof
  fix c
  show "clause_holds (d\<lparr>executed := n\<rparr>) r c = clause_holds d r c"
    by (cases c) simp_all
qed

lemma clause_refused_executed [simp]: "clause_refused (d\<lparr>executed := n\<rparr>) = clause_refused d"
proof
  fix c
  show "clause_refused (d\<lparr>executed := n\<rparr>) c = clause_refused d c"
    by (cases c) simp_all
qed

lemma filter_clauses_refused:
  "list_ex (clause_refused d) (filter_clauses q) \<longleftrightarrow> \<not> filter_accepted d q"
  by (cases "query_date q")
     (auto simp: filter_clauses_def filter_accepted_def supplied_def missing_or_empty_def)

lemma get_attendance_filter_up:
  "reachable d \<Longrightarrow> filter_accepted d q \<Longrightarrow>
   get_attendance_filter d q =
     (json (RowsBody (order_by (filter (\<lambda>r. list_all (clause_holds d r) (filter_clauses q)) (table d)))),
      d\<lparr>executed := Suc (executed d)\<rparr>)"
  by (simp add: get_attendance_filter_def pool_execute_up select_where_def filter_clauses_refused)

lemma get_attendance_filter_refused:
  "reachable d \<Longrightarrow> \<not> filter_accepted d q \<Longrightarrow>
   get_attendance_filter d q =
     (status_json 500 (ErrorBody ''Failed to filter attendance records''),
      d\<lparr>executed := Suc (executed d)\<rparr>)"
  by (simp add: get_attendance_filter_def pool_execute_up select_where_def filter_clauses_refused)

lemma get_attendance_filter_down:
  "\<not> reachable d \<Longrightarrow>
   get_attendance_filter d q =
     (status_json 500 (ErrorBody ''Failed to filter attendance records''),
      d\<lparr>executed := Suc (executed d)\<rparr>)"
  by (simp add: get_attendance_filter_def pool_execute_down)

lemma delete_attendance_up:
  "reachable d \<Longrightarrow>
   delete_attendance d i =
     ((if filter (\<lambda>r. row_id r = i) (table d) = []
       then status_json 404 (ErrorBody ''Record not found'')
       else json (MessageBody ''Record deleted successfully'')),
      d\<lparr>executed := Suc (executed d), table := filter (\<lambda>r. row_id r \<noteq> i) (table d)\<rparr>)"
  by (simp add: delete_attendance_def pool_execute_up delete_by_id_def)

lemma delete_attendance_down:
  "\<not> reachable d \<Longrightarrow>
   delete_attendance d i =
     (status_json 500 (ErrorBody ''Failed to delete record''),
      d\<lparr>executed := Suc (executed d)\<rparr>)"
  by (simp add: delete_attendance_def pool_execute_down)

lemma table_delete_attendance:
  "table (snd (delete_attendance d i)) =
     (if reachable d then filter (\<lambda>r. row_id r \<noteq> i) (table d) else table d)"
  by (simp add: delete_attendance_up delete_attendance_down)









lemma starts_with_iff: "starts_with s x \<longleftrightarrow> (\<exists>t. s = x @ t)"
  by (induction s x rule: starts_with.induct) auto

lemma contains_iff: "contains s x \<longleftrightarrow> (\<exists>a t. s = a @ x @ t)"
proof (induction s)
  case Nil
  then show ?case by auto
next
  case (Cons c cs)
  show ?case
  proof
    assume "contains (c # cs) x"
    then consider "starts_with (c # cs) x" | "contains cs x" by auto
    then show "\<exists>a t. c # cs = a @ x @ t"
    proof cases
      case 1
      then obtain t where "c # cs = x @ t" by (auto simp: starts_with_iff)
      then have "c # cs = [] @ x @ t" by simp
      then show ?thesis by blast
    next
      case 2
      then obtain a t where "cs = a @ x @ t" using Cons.IH by auto
      then have "c # cs = (c # a) @ x @ t" by simp
      then show ?thesis by blast
    qed
  next
    assume "\<exists>a t. c # cs = a @ x @ t"
    then obtain a t where eq: "c # cs = a @ x @ t" by auto
    show "contains (c # cs) x"
    proof (cases a)
      case Nil
      with eq have "starts_with (c # cs) x" by (auto simp: starts_with_iff)
      then show ?thesis by simp
    next
      case (Cons a0 as)
      with eq have "cs = as @ x @ t" by simp
      then have "contains cs x" using Cons.IH by blast
      then show ?thesis by simp
    qed
  qed
qed

lemma like_percent_any:
  "like_match w (CHR ''%'' # ps) s \<longleftrightarrow> (\<exists>a t. s = a @ t \<and> like_match w ps t)"
proof (induction s)
  case Nil
  then show ?case by simp
next
  case (Cons c cs)
  have "like_match w (CHR ''%'' # ps) (c # cs) \<longleftrightarrow>
        like_match w ps (c # cs) \<or> like_match w (CHR ''%'' # ps) cs"
    by simp
  also have "\<dots> \<longleftrightarrow> like_match w ps (c # cs) \<or> (\<exists>a t. cs = a @ t \<and> like_match w ps t)"
    using Cons.IH by simp
  also have "\<dots> \<longleftrightarrow> (\<exists>a t. c # cs = a @ t \<and> like_match w ps t)"
    by (auto simp: Cons_eq_append_conv)
  finally show ?case .
qed

lemma like_literal:
  "wildcard_free x \<Longrightarrow>
   like_match w (x @ ps) s \<longleftrightarrow> (\<exists>u t. s = u @ t \<and> map w u = map w x \<and> like_match w ps t)"
proof (induction x arbitrary: s)
  case Nil
  then show ?case by simp
next
  case (Cons x0 xs)
  then have lit: "x0 \<noteq> CHR ''%''" "x0 \<noteq> CHR ''_''" "x0 \<noteq> CHR 0x5C" and rest: "wildcard_free xs"
    by (simp_all add: wildcard_free_def)
  show ?case
  proof (cases s)
    case Nil
    with lit show ?thesis by simp
  next
    case (Cons c cs)
    have "like_match w ((x0 # xs) @ ps) (c # cs) \<longleftrightarrow> w x0 = w c \<and> like_match w (xs @ ps) cs"
      using lit by simp
    also have "\<dots> \<longleftrightarrow>
        w x0 = w c \<and> (\<exists>u t. cs = u @ t \<and> map w u = map w xs \<and> like_match w ps t)"
      using Cons.IH [OF rest, of cs] by simp
    also have "\<dots> \<longleftrightarrow>
        (\<exists>u t. c # cs = u @ t \<and> map w u = map w (x0 # xs) \<and> like_match w ps t)"
    proof
      assume "w x0 = w c \<and> (\<exists>u t. cs = u @ t \<and> map w u = map w xs \<and> like_match w ps t)"
      then obtain u t where "w x0 = w c" "cs = u @ t" "map w u = map w xs" "like_match w ps t"
        by blast
      then have "c # cs = (c # u) @ t \<and> map w (c # u) = map w (x0 # xs) \<and> like_match w ps t"
        by simp
      then show "\<exists>u t. c # cs = u @ t \<and> map w u = map w (x0 # xs) \<and> like_match w ps t"
        by blast
    next
      assume "\<exists>u t. c # cs = u @ t \<and> map w u = map w (x0 # xs) \<and> like_match w ps t"
      then obtain u t where *: "c # cs = u @ t" "map w u = map w (x0 # xs)" "like_match w ps t"
        by blast
      from *(2) obtain u0 us where u: "u = u0 # us" by (cases u) auto
      with * have "w x0 = w c" "cs = us @ t" "map w us = map w xs"
        by auto
      with *(3) show "w x0 = w c \<and>
          (\<exists>u t. cs = u @ t \<and> map w u = map w xs \<and> like_match w ps t)"
        by blast
    qed
    finally show ?thesis using Cons by simp
  qed
qed

lemma like_contains:
  assumes "wildcard_free x"
  shows "like_match w (CHR ''%'' # x @ ''%'') s \<longleftrightarrow> contains (map w s) (map w x)"
proof -
  have any: "like_match w ''%'' t" for t
    by (simp add: like_percent_any)
  have "like_match w (CHR ''%'' # x @ ''%'') s \<longleftrightarrow>
        (\<exists>a t. s = a @ t \<and> like_match w (x @ ''%'') t)"
    by (rule like_percent_any)
  also have "\<dots> \<longleftrightarrow> (\<exists>a t. s = a @ t \<and> (\<exists>u v. t = u @ v \<and> map w u = map w x))"
    using any by (simp add: like_literal [OF assms])
  also have "\<dots> \<longleftrightarrow> (\<exists>a' t'. map w s = a' @ map w x @ t')"
  proof
    assume "\<exists>a t. s = a @ t \<and> (\<exists>u v. t = u @ v \<and> map w u = map w x)"
    then obtain a u v where "s = a @ u @ v" "map w u = map w x" by auto
    then have "map w s = map w a @ map w x @ map w v" by simp
    then show "\<exists>a' t'. map w s = a' @ map w x @ t'" by blast
  next
    assume "\<exists>a' t'. map w s = a' @ map w x @ t'"
    then obtain a' t' where "map w s = a' @ map w x @ t'" by blast
    then have "\<exists>a r. s = a @ r \<and> a' = map w a \<and> map w x @ t' = map w r"
      by (simp only: map_eq_append_conv)
    then obtain a r where s: "s = a @ r" and r: "map w r = map w x @ t'"
      by metis
    from r have "\<exists>u v. r = u @ v \<and> map w x = map w u \<and> t' = map w v"
      by (simp only: map_eq_append_conv)
    then obtain u v where "r = u @ v" "map w u = map w x"
      by metis
    with s show "\<exists>a t. s = a @ t \<and> (\<exists>u v. t = u @ v \<and> map w u = map w x)" by blast
  qed
  also have "\<dots> \<longleftrightarrow> contains (map w s) (map w x)"
    by (simp add: contains_iff)
  finally show ?thesis .
qed

lemma filter_clauses_satisfies:
  assumes "wildcard_free (text_of (query_employeeName q))"
      and "wildcard_free (text_of (query_employeeID q))"
  shows "list_all (clause_holds d r) (filter_clauses q) \<longleftrightarrow> satisfies d q r"
  using assms
  by (simp add: filter_clauses_def satisfies_def supplied_def truthy_iff like_contains)

lemma filter_insert_ordered:
  "sorted_wrt precedes rs \<Longrightarrow>
   filter P (insert_ordered r rs) =
     (if P r then insert_ordered r (filter P rs) else filter P rs)"
proof (induction rs)
  case Nil
  then show ?case by simp
next
  case (Cons x xs)
  show ?case
  proof (cases "precedes r x")
    case True
    then have after: "\<forall>y \<in> set xs. precedes r y"
      using Cons.prems by (auto intro: precedes_trans)
    have "insert_ordered r (filter P xs) = r # filter P xs"
    proof (cases "filter P xs")
      case Nil
      then show ?thesis by simp
    next
      case (Cons y ys)
      then have "y \<in> set (filter P xs)" by simp
      then have "y \<in> set xs" by simp
      with after have "precedes r y" by blast
      with Cons show ?thesis by simp
    qed
    with True show ?thesis by simp
  next
    case False
    with Cons show ?thesis by simp
  qed
qed

lemma filter_order_by: "filter P (order_by rs) = order_by (filter P rs)"
  by (induction rs) (simp_all add: filter_insert_ordered sorted_order_by)

lemma one_row_with_id:
  "distinct (map row_id rs) \<Longrightarrow> i \<in> row_id ` set rs \<Longrightarrow>
   Suc (length (filter (\<lambda>r. row_id r \<noteq> i) rs)) = length rs"
proof (induction rs)
  case Nil
  then show ?case by simp
next
  case (Cons r rs)
  show ?case
  proof (cases "row_id r = i")
    case True
    with Cons.prems have "i \<notin> row_id ` set rs" by auto
    then have "filter (\<lambda>r. row_id r \<noteq> i) rs = rs"
      by (auto simp: filter_id_conv)
    with True show ?thesis by simp
  next
    case False
    with Cons show ?thesis by auto
  qed
qed

lemma no_filter_clauses:
  "missing_or_empty (query_date q) \<Longrightarrow> missing_or_empty (query_employeeName q) \<Longrightarrow>
   missing_or_empty (query_employeeID q) \<Longrightarrow> filter_clauses q = []"
  by (simp add: filter_clauses_def truthy_iff)

section \<open>The claims\<close>

text \<open>
  C1 (amended). A Create request whose four fields are present and non-empty, whose status is Present or Absent, for which the table has no record that the
  server's comparison gives the employeeID and date of the request, and whose statements
  the server executes (it is reachable, accepts the query and the insert), inserts one
  record, is
  answered 201 with the generated positive id, and the record, with the date as the column
  stores it, is in the list-all answer afterwards.
\<close>

theorem create_valid_request:
  assumes "\<not> missing_or_empty (body_employeeName b)"
      and "\<not> missing_or_empty (body_employeeID b)"
      and "\<not> missing_or_empty (body_date b)"
      and "\<not> missing_or_empty (body_status b)"
      and "body_status b \<in> {Some ''Present'', Some ''Absent''}"
      and "\<forall>r \<in> set (table d).
             \<not> (text_equal d (row_employeeID r) (text_of (body_employeeID b)) \<and>
                date_equal d (row_date r) (text_of (body_date b)))"
      and "reachable d"
      and "query_accepted d b"
      and "insert_accepted d b"
  shows "(\<exists>i. 0 < i \<and>
            fst (post_attendance now d (Some b)) =
              \<lparr>status_code = 201,
               payload = CreatedBody ''Attendance recorded successfully'' i\<rparr> \<and>
            row_id (new_row now d b) = i) \<and>
         date_stored d (text_of (body_date b)) = Some (row_date (new_row now d b)) \<and>
         table (snd (post_attendance now d (Some b))) = table d @ [new_row now d b] \<and>
         status_code (fst (get_attendance (snd (post_attendance now d (Some b))))) = 200 \<and>
         new_row now d b \<in>
           set (rows_of (fst (get_attendance (snd (post_attendance now d (Some b))))))"
proof -
  have wf: "well_formed b"
    using assms(1-5) by (simp add: well_formed_def)
  have fresh: "filter (same_day d b) (table d) = []"
    using assms(6) by (auto simp: filter_empty_conv same_day_def)
  note ins = post_attendance_inserted [OF wf assms(7) assms(8) fresh assms(9), of now]
  have up: "reachable (snd (post_attendance now d (Some b)))"
    using assms(7) by (simp add: ins)
  have tab: "table (snd (post_attendance now d (Some b))) = table d @ [new_row now d b]"
    by (simp add: ins)
  have res: "fst (post_attendance now d (Some b)) =
               \<lparr>status_code = 201,
                payload = CreatedBody ''Attendance recorded successfully'' (Suc (auto_increment d))\<rparr>"
    by (simp add: ins status_json_def)
  have listed: "rows_of (fst (get_attendance (snd (post_attendance now d (Some b))))) =
                  order_by (table d @ [new_row now d b])"
    by (simp add: get_attendance_up [OF up] json_def tab rows_of_def)
  have ok: "status_code (fst (get_attendance (snd (post_attendance now d (Some b))))) = 200"
    by (simp add: get_attendance_up [OF up] json_def)
  have stored: "date_stored d (text_of (body_date b)) = Some (row_date (new_row now d b))"
    using assms(9) by (auto simp: insert_accepted_def new_row_def)
  have "row_id (new_row now d b) = Suc (auto_increment d)"
    by (simp add: new_row_def)
  with res tab ok stored show ?thesis
    by (simp add: listed set_order_by)
qed

theorem create_valid_request_witness:
  "reachable store_up \<and> query_accepted store_up jane_next_day \<and>
   insert_accepted store_up jane_next_day \<and>
   fst (post_attendance 40 store_up (Some jane_next_day)) =
     \<lparr>status_code = 201, payload = CreatedBody ''Attendance recorded successfully'' 2\<rparr> \<and>
   table (snd (post_attendance 40 store_up (Some jane_next_day))) =
     [jane, \<lparr>row_id = 2, row_employeeName = ''Jane Doe'', row_employeeID = ''E100'',
             row_date = ''2024-01-06'', row_status = ''Present'', row_createdAt = 40\<rparr>] \<and>
   new_row 40 store_up jane_next_day \<in>
     set (rows_of (fst (get_attendance (snd (post_attendance 40 store_up (Some jane_next_day))))))"
proof -
  have up: "reachable store_up"
    by (simp add: store_up_def example_server_def)
  have acc: "insert_accepted store_up jane_next_day"
    by (simp add: insert_accepted_def store_up_def example_server_def jane_next_day_def
        example_reading)
  have qacc: "query_accepted store_up jane_next_day"
    by (simp add: query_accepted_def date_unreadable_def store_up_def example_server_def
        jane_next_day_def example_reading)
  have fields: "\<not> missing_or_empty (body_employeeName jane_next_day)"
    "\<not> missing_or_empty (body_employeeID jane_next_day)"
    "\<not> missing_or_empty (body_date jane_next_day)"
    "\<not> missing_or_empty (body_status jane_next_day)"
    "body_status jane_next_day \<in> {Some ''Present'', Some ''Absent''}"
    by (simp_all add: jane_next_day_def missing_or_empty_def)
  have fresh: "\<forall>r \<in> set (table store_up).
                 \<not> (text_equal store_up (row_employeeID r) (text_of (body_employeeID jane_next_day)) \<and>
                    date_equal store_up (row_date r) (text_of (body_date jane_next_day)))"
    by (simp add: store_up_def example_server_def jane_def jane_next_day_def date_equal_def
        text_equal_def example_reading)
  have row: "new_row 40 store_up jane_next_day =
               \<lparr>row_id = 2, row_employeeName = ''Jane Doe'', row_employeeID = ''E100'',
                row_date = ''2024-01-06'', row_status = ''Present'', row_createdAt = 40\<rparr>"
    by (simp add: new_row_def store_up_def example_server_def jane_next_day_def example_reading)
  have tab: "table store_up = [jane]"
    by (simp add: store_up_def)
  from create_valid_request [OF fields fresh up qacc acc, of 40] up qacc acc show ?thesis
    by (auto simp: row tab)
qed

theorem create_valid_request_counterexample:
  "\<not> missing_or_empty (body_employeeName jane_next_day) \<and>
   \<not> missing_or_empty (body_employeeID jane_next_day) \<and>
   \<not> missing_or_empty (body_date jane_next_day) \<and>
   \<not> missing_or_empty (body_status jane_next_day) \<and>
   body_status jane_next_day = Some ''Present'' \<and>
   filter (\<lambda>r. row_employeeID r = ''E100'' \<and> row_date r = ''2024-01-06'') (table store_down) = [] \<and>
   fst (post_attendance 40 store_down (Some jane_next_day)) =
     \<lparr>status_code = 500, payload = ErrorBody ''Failed to record attendance''\<rparr> \<and>
   table (snd (post_attendance 40 store_down (Some jane_next_day))) = [jane] \<and>
   body_employeeID jane_lower_case = Some ''e100'' \<and>
   body_date jane_lower_case = Some ''2024-1-5'' \<and>
   filter (\<lambda>r. row_employeeID r = ''e100'' \<and> row_date r = ''2024-1-5'') (table store_up) = [] \<and>
   fst (post_attendance 40 store_up (Some jane_lower_case)) =
     \<lparr>status_code = 400,
      payload = ErrorBody
        ''Attendance already recorded for this employee on the selected date''\<rparr> \<and>
   body_date jane_some_day = Some ''tomorrow'' \<and>
   fst (post_attendance 40 store_up (Some jane_some_day)) =
     \<lparr>status_code = 500, payload = ErrorBody ''Failed to record attendance''\<rparr> \<and>
   table (snd (post_attendance 40 store_up (Some jane_some_day))) = [jane] \<and>
   length (text_of (body_employeeName long_name)) = 256 \<and>
   fst (post_attendance 40 store_up (Some long_name)) =
     \<lparr>status_code = 500, payload = ErrorBody ''Failed to record attendance''\<rparr> \<and>
   table (snd (post_attendance 40 store_up (Some long_name))) = [jane]"
  by (simp add: jane_next_day_def jane_lower_case_def jane_some_day_def long_name_def
      store_down_def
      store_up_def example_server_def jane_def missing_or_empty_def
      post_attendance_def pool_execute_def select_existing_def insert_attendance_def
      text_equal_def date_equal_def date_unreadable_def status_json_def example_reading)










text \<open>
  C5 (amended). When the database executes the handler's statement: if a record has the
  id, DELETE removes the records with that id and no other (one record, ids being
  distinct), responds 200, and no later listing or filter answer holds the id; if no
  record has the id, it responds 404 and the table is left as it was.
\<close>

theorem delete_by_id_outcomes:
  assumes "reachable d"
  shows "(i \<in> row_id ` set (table d) \<longrightarrow>
            fst (delete_attendance d i) =
              \<lparr>status_code = 200, payload = MessageBody ''Record deleted successfully''\<rparr> \<and>
            table (snd (delete_attendance d i)) = filter (\<lambda>r. row_id r \<noteq> i) (table d) \<and>
            (distinct (map row_id (table d)) \<longrightarrow>
               Suc (length (table (snd (delete_attendance d i)))) = length (table d)) \<and>
            i \<notin> row_id ` set (rows_of (fst (get_attendance (snd (delete_attendance d i))))) \<and>
            i \<notin> row_id ` set (rows_of (fst (get_attendance_filter (snd (delete_attendance d i)) q)))) \<and>
         (i \<notin> row_id ` set (table d) \<longrightarrow>
            fst (delete_attendance d i) =
              \<lparr>status_code = 404, payload = ErrorBody ''Record not found''\<rparr> \<and>
            table (snd (delete_attendance d i)) = table d)"
proof -
  let ?d' = "snd (delete_attendance d i)"
  have tab: "table ?d' = filter (\<lambda>r. row_id r \<noteq> i) (table d)"
    using assms by (simp add: table_delete_attendance)
  have up: "reachable ?d'"
    using assms by (simp add: delete_attendance_up)
  have gone: "i \<notin> row_id ` set (table ?d')"
    by (auto simp: tab)
  have listed: "set (rows_of (fst (get_attendance ?d'))) = set (table ?d')"
    by (simp add: get_attendance_up [OF up] rows_of_def json_def set_order_by)
  have filtered: "set (rows_of (fst (get_attendance_filter ?d' q))) \<subseteq> set (table ?d')"
    by (cases "filter_accepted ?d' q")
       (auto simp: get_attendance_filter_up [OF up] get_attendance_filter_refused [OF up]
          rows_of_def json_def status_json_def set_order_by)
  have found: "fst (delete_attendance d i) =
                 \<lparr>status_code = 200, payload = MessageBody ''Record deleted successfully''\<rparr>"
    if "i \<in> row_id ` set (table d)"
  proof -
    from that have "filter (\<lambda>r. row_id r = i) (table d) \<noteq> []"
      by (auto simp: filter_empty_conv)
    then show ?thesis
      using assms by (simp add: delete_attendance_up json_def)
  qed
  have absent: "fst (delete_attendance d i) =
                  \<lparr>status_code = 404, payload = ErrorBody ''Record not found''\<rparr> \<and>
                table ?d' = table d"
    if "i \<notin> row_id ` set (table d)"
  proof -
    from that have none: "filter (\<lambda>r. row_id r = i) (table d) = []"
      by (auto simp: filter_empty_conv)
    from that have "filter (\<lambda>r. row_id r \<noteq> i) (table d) = table d"
      by (auto simp: filter_id_conv)
    with none show ?thesis
      using assms by (simp add: tab delete_attendance_up status_json_def)
  qed
  have one: "Suc (length (table ?d')) = length (table d)"
    if "i \<in> row_id ` set (table d)" "distinct (map row_id (table d))"
    using that by (simp add: tab one_row_with_id)
  from gone listed filtered found absent one tab show ?thesis
    by blast
qed

theorem delete_by_id_outcomes_witness:
  "reachable store_three \<and> distinct (map row_id (table store_three)) \<and>
   fst (delete_attendance store_three 2) =
     \<lparr>status_code = 200, payload = MessageBody ''Record deleted successfully''\<rparr> \<and>
   table (snd (delete_attendance store_three 2)) = [jane, ann] \<and>
   rows_of (fst (get_attendance (snd (delete_attendance store_three 2)))) = [ann, jane] \<and>
   fst (delete_attendance store_three 7) =
     \<lparr>status_code = 404, payload = ErrorBody ''Record not found''\<rparr> \<and>
   table (snd (delete_attendance store_three 7)) = [jane, sam, ann]"
proof -
  have up: "reachable store_three"
    by (simp add: store_three_def example_server_def)
  have ids: "map row_id (table store_three) = [1, 2, 3]"
    by (simp add: store_three_def jane_def sam_def ann_def)
  have t2: "filter (\<lambda>r. row_id r \<noteq> 2) (table store_three) = [jane, ann]"
    by (simp add: store_three_def jane_def sam_def ann_def)
  have listed: "rows_of (fst (get_attendance (snd (delete_attendance store_three 2)))) = [ann, jane]"
    by (simp add: delete_attendance_up [OF up] get_attendance_up up t2 rows_of_def json_def)
       (simp add: precedes_def jane_def ann_def)
  have here: "(2::nat) \<in> row_id ` set (table store_three)"
    by (simp add: store_three_def jane_def sam_def ann_def)
  have there: "(7::nat) \<notin> row_id ` set (table store_three)"
    by (simp add: store_three_def jane_def sam_def ann_def)
  have tab: "table store_three = [jane, sam, ann]"
    by (simp add: store_three_def)
  from delete_by_id_outcomes [OF up, of 2] delete_by_id_outcomes [OF up, of 7] here there
  show ?thesis
    using up ids t2 listed by (simp add: tab)
qed

theorem delete_by_id_outcomes_counterexample:
  "row_id jane = 1 \<and> table store_down = [jane] \<and>
   fst (delete_attendance store_down 1) =
     \<lparr>status_code = 500, payload = ErrorBody ''Failed to delete record''\<rparr> \<and>
   table (snd (delete_attendance store_down 1)) = [jane] \<and>
   fst (delete_attendance store_down 7) =
     \<lparr>status_code = 500, payload = ErrorBody ''Failed to delete record''\<rparr>"
  by (simp add: store_down_def example_server_def jane_def delete_attendance_def
      pool_execute_def status_json_def)

text \<open>
  C6 (amended). When the database executes the query, list-all responds 200 with all the
  stored records, each as often as it is stored, ordered by date descending and, within
  one date, by createdAt descending; the table is left as it was.
\<close>

theorem list_all_sorted:
  assumes "reachable d"
  shows "status_code (fst (get_attendance d)) = 200 \<and>
         payload (fst (get_attendance d)) = RowsBody (rows_of (fst (get_attendance d))) \<and>
         mset (rows_of (fst (get_attendance d))) = mset (table d) \<and>
         date_desc_created_desc (rows_of (fst (get_attendance d))) \<and>
         table (snd (get_attendance d)) = table d"
  using assms
  by (simp add: get_attendance_up rows_of_def json_def mset_order_by
      date_desc_created_desc_order_by)

theorem list_all_sorted_witness:
  "reachable store_three \<and> table store_three = [jane, sam, ann] \<and>
   rows_of (fst (get_attendance store_three)) = [sam, ann, jane] \<and>
   date_desc_created_desc [sam, ann, jane]"
proof -
  have up: "reachable store_three"
    by (simp add: store_three_def example_server_def)
  have "order_by (table store_three) = [sam, ann, jane]"
    by (simp add: store_three_def precedes_def jane_def sam_def ann_def)
  then have rows: "rows_of (fst (get_attendance store_three)) = [sam, ann, jane]"
    by (simp add: get_attendance_up [OF up] rows_of_def json_def)
  from list_all_sorted [OF up] rows up show ?thesis
    by (simp add: store_three_def)
qed

theorem list_all_sorted_counterexample:
  "table store_down = [jane] \<and>
   fst (get_attendance store_down) =
     \<lparr>status_code = 500, payload = ErrorBody ''Failed to fetch attendance records''\<rparr> \<and>
   rows_of (fst (get_attendance store_down)) = []"
  by (simp add: store_down_def example_server_def get_attendance_def pool_execute_def
      status_json_def rows_of_def)

text \<open>
  C7 (amended). When the database executes the query (it is reachable and reads the
  supplied date) and the supplied employeeName and
  employeeID texts hold none of the characters \<^verbatim>\<open>%\<close>, \<^verbatim>\<open>_\<close> and backslash, the Filter
  operation responds 200 with exactly the records that satisfy the conjunction of the
  supplied conditions (a parameter is supplied when it is present and non-empty): the
  date equal to the supplied date as the server compares dates, employeeName and
  employeeID containing the supplied text as the collation of the column compares
  characters. The records come in the order list-all gives them: date descending, then
  createdAt descending.
\<close>

theorem filter_conjunction:
  assumes "reachable d"
      and "filter_accepted d q"
      and "wildcard_free (text_of (query_employeeName q))"
      and "wildcard_free (text_of (query_employeeID q))"
  shows "status_code (fst (get_attendance_filter d q)) = 200 \<and>
         payload (fst (get_attendance_filter d q)) =
           RowsBody (rows_of (fst (get_attendance_filter d q))) \<and>
         rows_of (fst (get_attendance_filter d q)) =
           filter (satisfies d q) (rows_of (fst (get_attendance d))) \<and>
         mset (rows_of (fst (get_attendance_filter d q))) =
           mset (filter (satisfies d q) (table d)) \<and>
         date_desc_created_desc (rows_of (fst (get_attendance_filter d q)))"
proof -
  have sat: "(\<lambda>r. list_all (clause_holds d r) (filter_clauses q)) = satisfies d q"
    using filter_clauses_satisfies [OF assms(3,4)] by auto
  have rows: "rows_of (fst (get_attendance_filter d q)) =
                order_by (filter (satisfies d q) (table d))"
    using assms(1,2) by (simp add: get_attendance_filter_up rows_of_def json_def sat)
  have all_rows: "rows_of (fst (get_attendance d)) = order_by (table d)"
    using assms(1) by (simp add: get_attendance_up rows_of_def json_def)
  have ok: "status_code (fst (get_attendance_filter d q)) = 200"
    using assms(1,2) by (simp add: get_attendance_filter_up json_def)
  have body: "payload (fst (get_attendance_filter d q)) =
                RowsBody (rows_of (fst (get_attendance_filter d q)))"
    using assms(1,2) by (simp add: get_attendance_filter_up rows_of_def json_def)
  from ok body show ?thesis
    by (simp add: rows all_rows filter_order_by mset_order_by date_desc_created_desc_order_by)
qed

theorem filter_conjunction_witness:
  "reachable store_three \<and> filter_accepted store_three january_fifth_e \<and>
   wildcard_free (text_of (query_employeeName january_fifth_e)) \<and>
   wildcard_free (text_of (query_employeeID january_fifth_e)) \<and>
   rows_of (fst (get_attendance store_three)) = [sam, ann, jane] \<and>
   satisfies store_three january_fifth_e ann \<and> satisfies store_three january_fifth_e jane \<and>
   \<not> satisfies store_three january_fifth_e sam \<and>
   rows_of (fst (get_attendance_filter store_three january_fifth_e)) = [ann, jane]"
proof -
  have up: "reachable store_three"
    by (simp add: store_three_def example_server_def)
  have free: "wildcard_free (text_of (query_employeeName january_fifth_e))"
    "wildcard_free (text_of (query_employeeID january_fifth_e))"
    by (simp_all add: january_fifth_e_def wildcard_free_def)
  have acc: "filter_accepted store_three january_fifth_e"
    by (simp add: filter_accepted_def date_unreadable_def january_fifth_e_def store_three_def
        example_server_def example_reading)
  have "order_by (table store_three) = [sam, ann, jane]"
    by (simp add: store_three_def precedes_def jane_def sam_def ann_def)
  then have rows: "rows_of (fst (get_attendance store_three)) = [sam, ann, jane]"
    by (simp add: get_attendance_up [OF up] rows_of_def json_def)
  have sat: "satisfies store_three january_fifth_e ann"
    "satisfies store_three january_fifth_e jane"
    "\<not> satisfies store_three january_fifth_e sam"
    by (simp_all add: satisfies_def supplied_def missing_or_empty_def january_fifth_e_def
        date_equal_def store_three_def example_server_def jane_def sam_def ann_def
        example_reading)
  from filter_conjunction [OF up acc free] up acc free rows sat show ?thesis
    by simp
qed

theorem filter_conjunction_counterexample:
  "reachable store_up \<and> table store_up = [jane] \<and>
   query_employeeID underscore_filter = Some ''_'' \<and>
   \<not> contains (row_employeeID jane) ''_'' \<and>
   rows_of (fst (get_attendance_filter store_up underscore_filter)) = [jane] \<and>
   query_employeeName name_jane = Some ''jane'' \<and>
   \<not> contains (row_employeeName jane) ''jane'' \<and>
   rows_of (fst (get_attendance_filter store_up name_jane)) = [jane] \<and>
   table store_down = [jane] \<and>
   rows_of (fst (get_attendance_filter store_down no_filter)) = [] \<and>
   query_date tomorrow_filter = Some ''tomorrow'' \<and>
   fst (get_attendance_filter store_up tomorrow_filter) =
     \<lparr>status_code = 500, payload = ErrorBody ''Failed to filter attendance records''\<rparr>"
  by (simp add: store_up_def store_down_def example_server_def jane_def underscore_filter_def
      name_jane_def no_filter_def tomorrow_filter_def get_attendance_filter_def
      pool_execute_def select_where_def filter_clauses_def date_unreadable_def rows_of_def
      json_def status_json_def example_reading)

text \<open>
  C8. The health handler responds 200 with the fixed status OK, the timestamp it is given
  and the version, sends no statement to the pool and leaves the store as it was; the
  response is the same whatever the store holds and whether or not the database is
  reachable.
\<close>

theorem health_is_static:
  "status_code (fst (get_health t d)) = 200 \<and>
   payload (fst (get_health t d)) =
     HealthBody ''OK'' ''Server is running'' t ''Connected'' ''1.0.0'' \<and>
   snd (get_health t d) = d \<and>
   executed (snd (get_health t d)) = executed d \<and>
   fst (get_health t d) = fst (get_health t d')"
  by (simp add: get_health_def json_def)

text \<open>
  C9. Startup: when the four bootstrap steps succeed, the database is created, then the
  table, and only then does the server listen; when a step fails the process exits with
  status 1 and never listens. Whenever the server listens, both creations are behind it.
\<close>

theorem startup_order:
  "(bootstrap_ok s \<longrightarrow>
      startServer s =
        [ServerConnected, DatabaseCreated, ConnectionEnded, TableCreated, Listening]) \<and>
   (\<not> bootstrap_ok s \<longrightarrow>
      Listening \<notin> set (startServer s) \<and> last (startServer s) = Exited 1) \<and>
   (Listening \<in> set (startServer s) \<longrightarrow>
      (\<exists>before. startServer s = before @ [Listening] \<and>
         DatabaseCreated \<in> set before \<and> TableCreated \<in> set before))"
  by (auto simp: startServer_def initializeDatabase_def bootstrap_ok_def)

theorem startup_order_witness:
  "bootstrap_ok working_server \<and>
   startServer working_server =
     [ServerConnected, DatabaseCreated, ConnectionEnded, TableCreated, Listening] \<and>
   \<not> bootstrap_ok failing_server \<and>
   startServer failing_server =
     [ServerConnected, DatabaseCreated, ConnectionEnded, Exited 1] \<and>
   Listening \<notin> set (startServer failing_server)"
  using startup_order [of working_server] startup_order [of failing_server]
  by (simp add: working_server_def failing_server_def bootstrap_ok_def startServer_def
      initializeDatabase_def)

text \<open>
  C10. A Filter request in which every parameter is missing or empty is answered as
  list-all is: the same status, the same records in the same order, the same store
  afterwards (and the same response when the database executes the query). An empty
  parameter is read as a missing one, whatever the other parameters are.
\<close>

theorem filter_without_parameters:
  assumes "missing_or_empty (query_date q)"
      and "missing_or_empty (query_employeeName q)"
      and "missing_or_empty (query_employeeID q)"
  shows "status_code (fst (get_attendance_filter d q)) = status_code (fst (get_attendance d)) \<and>
         rows_of (fst (get_attendance_filter d q)) = rows_of (fst (get_attendance d)) \<and>
         snd (get_attendance_filter d q) = snd (get_attendance d) \<and>
         (reachable d \<longrightarrow> get_attendance_filter d q = get_attendance d) \<and>
         get_attendance_filter d (p\<lparr>query_date := Some []\<rparr>) =
           get_attendance_filter d (p\<lparr>query_date := None\<rparr>) \<and>
         get_attendance_filter d (p\<lparr>query_employeeName := Some []\<rparr>) =
           get_attendance_filter d (p\<lparr>query_employeeName := None\<rparr>) \<and>
         get_attendance_filter d (p\<lparr>query_employeeID := Some []\<rparr>) =
           get_attendance_filter d (p\<lparr>query_employeeID := None\<rparr>)"
proof -
  have none: "filter_clauses q = []"
    using assms by (rule no_filter_clauses)
  have same: "status_code (fst (get_attendance_filter d q)) = status_code (fst (get_attendance d)) \<and>
              rows_of (fst (get_attendance_filter d q)) = rows_of (fst (get_attendance d)) \<and>
              snd (get_attendance_filter d q) = snd (get_attendance d) \<and>
              (reachable d \<longrightarrow> get_attendance_filter d q = get_attendance d)"
  proof (cases "reachable d")
    case True
    moreover have "filter_accepted d q"
      using assms(1) by (simp add: filter_accepted_def supplied_def)
    ultimately show ?thesis
      by (simp add: get_attendance_filter_up get_attendance_up none)
  next
    case False
    then show ?thesis
      by (simp add: get_attendance_filter_down get_attendance_down status_json_def rows_of_def)
  qed
  have empty: "get_attendance_filter d (p\<lparr>query_date := Some []\<rparr>) =
                 get_attendance_filter d (p\<lparr>query_date := None\<rparr>)"
    "get_attendance_filter d (p\<lparr>query_employeeName := Some []\<rparr>) =
       get_attendance_filter d (p\<lparr>query_employeeName := None\<rparr>)"
    "get_attendance_filter d (p\<lparr>query_employeeID := Some []\<rparr>) =
       get_attendance_filter d (p\<lparr>query_employeeID := None\<rparr>)"
    by (simp_all add: get_attendance_filter_def filter_clauses_def)
  from same empty show ?thesis
    by simp
qed

theorem filter_without_parameters_witness:
  "missing_or_empty (query_date no_filter) \<and>
   missing_or_empty (query_employeeName no_filter) \<and>
   missing_or_empty (query_employeeID no_filter) \<and>
   rows_of (fst (get_attendance_filter store_three no_filter)) = [sam, ann, jane] \<and>
   rows_of (fst (get_attendance store_three)) = [sam, ann, jane] \<and>
   get_attendance_filter store_three no_filter = get_attendance store_three \<and>
   status_code (fst (get_attendance_filter store_down no_filter)) = 500 \<and>
   status_code (fst (get_attendance store_down)) = 500"
proof -
  have up: "reachable store_three"
    by (simp add: store_three_def example_server_def)
  have down: "\<not> reachable store_down"
    by (simp add: store_down_def example_server_def)
  have no: "missing_or_empty (query_date no_filter)"
    "missing_or_empty (query_employeeName no_filter)"
    "missing_or_empty (query_employeeID no_filter)"
    by (simp_all add: no_filter_def missing_or_empty_def)
  have "order_by (table store_three) = [sam, ann, jane]"
    by (simp add: store_three_def precedes_def jane_def sam_def ann_def)
  then have rows: "rows_of (fst (get_attendance store_three)) = [sam, ann, jane]"
    by (simp add: get_attendance_up [OF up] rows_of_def json_def)
  have failed: "status_code (fst (get_attendance store_down)) = 500"
    by (simp add: get_attendance_down [OF down] status_json_def)
  from filter_without_parameters [OF no, of store_three]
    filter_without_parameters [OF no, of store_down] up no rows failed
  show ?thesis
    by simp
qed

end
